theory Spec2Isabelle
  imports
    Main
    "HOL-Library.AList"
    "HOL-Library.Char_ord"
    "HOL-Library.List_Lexorder"
begin

section \<open>Stereo pair processing: the script \<^verbatim>\<open>process_stereo_pairs.py\<close>\<close>

text \<open>
  The script pairs the images of two camera streams by the timestamp in their file names
  and hands every pair to a pretrained depth model. Its three functions are embedded here:
  \<^verbatim>\<open>get_timestamp_from_filename\<close>, \<^verbatim>\<open>find_stereo_pairs\<close> and
  \<^verbatim>\<open>process_stereo_pairs\<close> (with the tail of \<^verbatim>\<open>main\<close> that calls it).

  Python strings are \<^typ>\<open>string\<close>; their comparison (code point by code point, a proper
  prefix first) is the order of \<open>HOL-Library.List_Lexorder\<close> over the order of
  \<open>HOL-Library.Char_ord\<close>.
\<close>

subsection \<open>Strings\<close>

text \<open>
  \<^verbatim>\<open>s.split(sep)\<close> for a separator of one character: the pieces between the
  separators, in order; the list is never empty.
\<close>

fun split :: "char \<Rightarrow> string \<Rightarrow> string list" where
  "split sep [] = [] # []"
| "split sep (c # cs) =
     (if c = sep then [] # split sep cs
      else (case split sep cs of
              [] \<Rightarrow> [c] # []
            | w # ws \<Rightarrow> (c # w) # ws))"

text \<open>\<^verbatim>\<open>str(n)\<close> for a length: the decimal digits.\<close>

fun str_nat :: "nat \<Rightarrow> string" where
  "str_nat n =
     (if n < 10 then [''0123456789'' ! n]
      else str_nat (n div 10) @ [''0123456789'' ! (n mod 10)])"

declare str_nat.simps [simp del]

subsection \<open>Paths and the file tree\<close>

text \<open>
  A \<^verbatim>\<open>pathlib.Path\<close> is the list of its components. \<^verbatim>\<open>p / name\<close> appends one
  component, \<^verbatim>\<open>p.name\<close> is the last one, \<^verbatim>\<open>str(p)\<close> joins them with a slash.
\<close>

type_synonym path = "string list"

definition path_div :: "path \<Rightarrow> string \<Rightarrow> path" where
  "path_div p name = p @ [name]"

definition path_name :: "path \<Rightarrow> string" where
  "path_name p = (if p = [] then [] else last p)"

fun path_str :: "path \<Rightarrow> string" where
  "path_str [] = ''.''"
| "path_str [c] = c"
| "path_str (c # d # cs) = c @ ''/'' @ path_str (d # cs)"

text \<open>
  The file tree as the script reads it: a path is absent, a file, or a directory with the
  names of its entries in the order in which the system lists them.
\<close>

datatype node = File | Dir "string list"

type_synonym filesystem = "path \<Rightarrow> node option"

definition exists :: "filesystem \<Rightarrow> path \<Rightarrow> bool" where
  "exists fs p = (fs p \<noteq> None)"

text \<open>
  Matching one name against a pattern, as \<^verbatim>\<open>Path.glob\<close> does for a pattern of one
  component: \<^verbatim>\<open>*\<close> stands for any run of characters (also none, also a leading dot),
  \<^verbatim>\<open>?\<close> for any one character, every other character for itself. Bracket
  expressions are not modelled; the script's pattern has none.
\<close>

fun glob_match :: "string \<Rightarrow> string \<Rightarrow> bool" where
  "glob_match [] [] = True"
| "glob_match [] (c # cs) = False"
| "glob_match (p # ps) [] = (p = CHR ''*'' \<and> glob_match ps [])"
| "glob_match (p # ps) (c # cs) =
     (if p = CHR ''*'' then glob_match ps (c # cs) \<or> glob_match (p # ps) cs
      else (p = CHR ''?'' \<or> p = c) \<and> glob_match ps cs)"

text \<open>
  \<^verbatim>\<open>d.glob(pattern)\<close>: the entries of the directory whose names match, as paths
  below \<open>d\<close>, in listing order; nothing when \<open>d\<close> is absent or not a directory.
\<close>

definition glob :: "filesystem \<Rightarrow> path \<Rightarrow> string \<Rightarrow> path list" where
  "glob fs d pattern =
     (case fs d of
        Some (Dir names) \<Rightarrow> map (path_div d) (filter (glob_match pattern) names)
      | _ \<Rightarrow> [])"

subsection \<open>Dictionaries and errors\<close>

text \<open>
  A Python \<^verbatim>\<open>dict\<close> is an association list in insertion order: storing under a key
  that is present replaces the value in place, storing under a new key appends.
\<close>

datatype error =
    FileNotFoundError string
  | KeyError string
  | ExternalError string

type_synonym ('k, 'v) dict = "('k \<times> 'v) list"

definition dict_set :: "('k, 'v) dict \<Rightarrow> 'k \<times> 'v \<Rightarrow> ('k, 'v) dict" where
  "dict_set d kv = AList.update (fst kv) (snd kv) d"

definition dict_of :: "('k \<times> 'v) list \<Rightarrow> ('k, 'v) dict" where
  "dict_of kvs = foldl dict_set [] kvs"

definition keys :: "('k, 'v) dict \<Rightarrow> 'k list" where
  "keys d = map fst d"

definition dict_get :: "(string, 'v) dict \<Rightarrow> string \<Rightarrow> error + 'v" where
  "dict_get d k = (case map_of d k of None \<Rightarrow> Inl (KeyError k) | Some v \<Rightarrow> Inr v)"

subsection \<open>The pair finder\<close>

definition get_timestamp_from_filename :: "string \<Rightarrow> string" where
  "get_timestamp_from_filename filename = hd (split CHR ''_'' filename)"

definition stream_images :: "filesystem \<Rightarrow> path \<Rightarrow> (string, path) dict" where
  "stream_images fs stream_dir =
     dict_of (map (\<lambda>f. (get_timestamp_from_filename (path_name f), f))
                  (glob fs stream_dir ''*_undistorted.jpg''))"

definition common_timestamps :: "(string, path) dict \<Rightarrow> (string, path) dict \<Rightarrow> string list" where
  "common_timestamps stream1_images stream2_images =
     sorted_list_of_set (set (keys stream1_images) \<inter> set (keys stream2_images))"

text \<open>The list comprehension over the common timestamps; a failing lookup ends it.\<close>

fun pairs_of ::
  "(string, path) dict \<Rightarrow> (string, path) dict \<Rightarrow> string list \<Rightarrow> error + (path \<times> path) list"
where
  "pairs_of stream1_images stream2_images [] = Inr []"
| "pairs_of stream1_images stream2_images (ts # rest) =
     (case dict_get stream1_images ts of
        Inl e \<Rightarrow> Inl e
      | Inr left \<Rightarrow>
          (case dict_get stream2_images ts of
             Inl e \<Rightarrow> Inl e
           | Inr right \<Rightarrow>
               (case pairs_of stream1_images stream2_images rest of
                  Inl e \<Rightarrow> Inl e
                | Inr pairs \<Rightarrow> Inr ((left, right) # pairs))))"

definition find_stereo_pairs ::
  "filesystem \<Rightarrow> path \<Rightarrow> path \<Rightarrow> error + (path \<times> path) list"
where
  "find_stereo_pairs fs stream1_dir stream2_dir =
     (let stream1_images = stream_images fs stream1_dir;
          stream2_images = stream_images fs stream2_dir
      in pairs_of stream1_images stream2_images
           (common_timestamps stream1_images stream2_images))"

subsection \<open>The pair processor\<close>

text \<open>
  What the script does to the outside is recorded as a trace of events, in order, next to the
  file tree it reads and writes. The model class and the operating system are collaborators,
  not code of the script; they are parameters, each call returning a value or raising an
  error of its own choice. \<open>'m\<close> is the type of a loaded model. The four calls are
  \<^verbatim>\<open>DepthAnything3.from_pretrained(model_dir)\<close>, \<^verbatim>\<open>model.to(device=device)\<close>,
  \<^verbatim>\<open>output_dir.mkdir(parents=True, exist_ok=True)\<close> and
  \<^verbatim>\<open>model.inference(paths, export_dir=..., export_format=...)\<close>. Creating a directory
  and running inference may change the file tree; what loading a model does elsewhere (a
  download cache, device memory) is outside the tree. A call is recorded when it is made,
  whether it returns or raises, and so is every \<^verbatim>\<open>print\<close>. \<^verbatim>\<open>tqdm\<close> only draws
  a progress bar and is left out.
\<close>

datatype 'm event =
    Print string
  | FromPretrained string
  | ToDevice 'm string
  | Mkdir path
  | Inference 'm "string list" string string

record 'm world =
  fs :: filesystem
  events :: "'m event list"

record 'm collaborators =
  from_pretrained :: "string \<Rightarrow> error + 'm"
  to_device :: "'m \<Rightarrow> string \<Rightarrow> error + 'm"
  mkdir :: "path \<Rightarrow> filesystem \<Rightarrow> error + filesystem"
  inference :: "'m \<Rightarrow> string list \<Rightarrow> string \<Rightarrow> string \<Rightarrow> filesystem \<Rightarrow> error + filesystem"

definition emit :: "'m event \<Rightarrow> 'm world \<Rightarrow> 'm world" where
  "emit e w = w\<lparr>events := events w @ [e]\<rparr>"

text \<open>
  The loop over the pairs. The result is \<open>None\<close> when the loop runs to its end and
  \<open>Some e\<close> when a call raised \<open>e\<close>, which ends the loop there.
\<close>

fun process_pairs ::
  "'m collaborators \<Rightarrow> 'm \<Rightarrow> path \<Rightarrow> string \<Rightarrow> (path \<times> path) list \<Rightarrow> 'm world
     \<Rightarrow> error option \<times> 'm world"
where
  "process_pairs ext model output_dir export_format [] w = (None, w)"
| "process_pairs ext model output_dir export_format ((left_path, right_path) # rest) w =
     (let timestamp = get_timestamp_from_filename (path_name left_path);
          pair_output_dir = path_div output_dir (''pair_'' @ timestamp);
          w1 = emit (Inference model [path_str left_path, path_str right_path]
                       (path_str pair_output_dir) export_format) w
      in case inference ext model [path_str left_path, path_str right_path]
                (path_str pair_output_dir) export_format (fs w1) of
           Inl e \<Rightarrow> (Some e, w1)
         | Inr fs' \<Rightarrow>
             process_pairs ext model output_dir export_format rest (w1\<lparr>fs := fs'\<rparr>))"

definition process_stereo_pairs ::
  "'m collaborators \<Rightarrow> path \<Rightarrow> path \<Rightarrow> string \<Rightarrow> string \<Rightarrow> string \<Rightarrow> 'm world
     \<Rightarrow> error option \<times> 'm world"
where
  "process_stereo_pairs ext data_dir output_dir model_dir export_format device w =
     (let stream1_dir = path_div data_dir ''stream_1201-1'';
          stream2_dir = path_div data_dir ''stream_1201-2''
      in if \<not> exists (fs w) stream1_dir then
           (Some (FileNotFoundError (''Stream 1 directory not found: '' @ path_str stream1_dir)), w)
         else if \<not> exists (fs w) stream2_dir then
           (Some (FileNotFoundError (''Stream 2 directory not found: '' @ path_str stream2_dir)), w)
         else
           (case find_stereo_pairs (fs w) stream1_dir stream2_dir of
              Inl e \<Rightarrow> (Some e, w)
            | Inr pairs \<Rightarrow>
                (let w1 = emit (Print (''Found '' @ str_nat (length pairs) @ '' stereo pairs'')) w
                 in if pairs = [] then
                      (None, emit (Print ''No matching pairs found!'') w1)
                    else
                      (let w2 = emit (Print (''Loading model: '' @ model_dir)) w1;
                           w3 = emit (FromPretrained model_dir) w2
                       in case from_pretrained ext model_dir of
                            Inl e \<Rightarrow> (Some e, w3)
                          | Inr loaded \<Rightarrow>
                              (let w4 = emit (ToDevice loaded device) w3
                               in case to_device ext loaded device of
                                    Inl e \<Rightarrow> (Some e, w4)
                                  | Inr model \<Rightarrow>
                                      (let w5 = emit (Mkdir output_dir) w4
                                       in case mkdir ext output_dir (fs w5) of
                                            Inl e \<Rightarrow> (Some e, w5)
                                          | Inr fs' \<Rightarrow>
                                              process_pairs ext model output_dir export_format
                                                pairs (w5\<lparr>fs := fs'\<rparr>)))))))"

text \<open>
  The tail of \<^verbatim>\<open>main\<close>, after the arguments are parsed: the default output directory,
  the call, and the exit status of the interpreter (0 on return, 1 on an uncaught exception).
\<close>

record args =
  arg_data_dir :: path
  arg_output_dir :: "path option"
  arg_model_dir :: string
  arg_export_format :: string
  arg_device :: string

definition main :: "'m collaborators \<Rightarrow> args \<Rightarrow> 'm world \<Rightarrow> nat \<times> 'm world" where
  "main ext a w =
     (let output_dir =
            (case arg_output_dir a of
               Some d \<Rightarrow> d
             | None \<Rightarrow> path_div (arg_data_dir a) ''depth_output'')
      in case process_stereo_pairs ext (arg_data_dir a) output_dir (arg_model_dir a)
                (arg_export_format a) (arg_device a) w of
           (None, w') \<Rightarrow> (0, w')
         | (Some e, w') \<Rightarrow> (1, w'))"

text \<open>The inference calls of a trace, in order.\<close>

fun inference_calls :: "'m event list \<Rightarrow> ('m \<times> string list \<times> string \<times> string) list" where
  "inference_calls [] = []"
| "inference_calls (Inference m inputs export_dir export_format # es) =
     (m, inputs, export_dir, export_format) # inference_calls es"
| "inference_calls (e # es) = inference_calls es"

text \<open>The model loads and the directory creations of a trace, in order.\<close>

fun load_calls :: "'m event list \<Rightarrow> string list" where
  "load_calls [] = []"
| "load_calls (FromPretrained model_dir # es) = model_dir # load_calls es"
| "load_calls (e # es) = load_calls es"

fun mkdir_calls :: "'m event list \<Rightarrow> path list" where
  "mkdir_calls [] = []"
| "mkdir_calls (Mkdir p # es) = p # mkdir_calls es"
| "mkdir_calls (e # es) = mkdir_calls es"

subsection \<open>Notions used to state the properties\<close>

text \<open>
  The key of a file is the timestamp the script extracts from its name; the keys of a
  stream directory are the keys of the files the pattern selects there.
\<close>

definition file_key :: "path \<Rightarrow> string" where
  "file_key f = get_timestamp_from_filename (path_name f)"

definition stream_keys :: "filesystem \<Rightarrow> path \<Rightarrow> string set" where
  "stream_keys tree d = file_key ` set (glob tree d ''*_undistorted.jpg'')"


definition stream1 :: "path \<Rightarrow> path" where
  "stream1 data_dir = path_div data_dir ''stream_1201-1''"

definition stream2 :: "path \<Rightarrow> path" where
  "stream2 data_dir = path_div data_dir ''stream_1201-2''"

definition pair_event :: "'m \<Rightarrow> path \<Rightarrow> string \<Rightarrow> path \<times> path \<Rightarrow> 'm event" where
  "pair_event model output_dir export_format p =
     Inference model [path_str (fst p), path_str (snd p)]
       (path_str (path_div output_dir (''pair_'' @ file_key (fst p)))) export_format"

subsection \<open>Concrete inputs\<close>

text \<open>
  A data directory \<^verbatim>\<open>data\<close> with the two stream directories and the given listings.
\<close>

definition two_streams :: "string list \<Rightarrow> string list \<Rightarrow> filesystem" where
  "two_streams names1 names2 p =
     (if p = [''data''] then Some (Dir [''stream_1201-1'', ''stream_1201-2''])
      else if p = [''data'', ''stream_1201-1''] then Some (Dir names1)
      else if p = [''data'', ''stream_1201-2''] then Some (Dir names2)
      else None)"


text \<open>
  Collaborators that work: a loaded model is the pair of its name and its device, creating
  a directory that is there changes nothing, inference leaves the file tree alone.
\<close>

definition working_ext :: "(string \<times> string) collaborators" where
  "working_ext =
     \<lparr>from_pretrained = (\<lambda>model_dir. Inr (model_dir, ''unplaced'')),
      to_device = (\<lambda>m device. Inr (fst m, device)),
      mkdir = (\<lambda>p tree. case tree p of
                  None \<Rightarrow> Inr (tree(p \<mapsto> Dir []))
                | Some (Dir names) \<Rightarrow> Inr tree
                | Some File \<Rightarrow> Inl (ExternalError ''FileExistsError'')),
      inference = (\<lambda>m inputs export_dir export_format tree. Inr tree)\<rparr>"

text \<open>Collaborators of which one call raises.\<close>

definition load_raises :: "(string \<times> string) collaborators" where
  "load_raises = working_ext\<lparr>from_pretrained := (\<lambda>model_dir. Inl (ExternalError ''no such model''))\<rparr>"

definition device_raises :: "(string \<times> string) collaborators" where
  "device_raises = working_ext\<lparr>to_device := (\<lambda>m device. Inl (ExternalError ''no such device''))\<rparr>"



definition start :: "filesystem \<Rightarrow> (string \<times> string) world" where
  "start tree = \<lparr>fs = tree, events = []\<rparr>"

definition default_args :: args where
  "default_args =
     \<lparr>arg_data_dir = [''data''], arg_output_dir = None,
      arg_model_dir = ''depth-anything/DA3NESTED-GIANT-LARGE-1.1'',
      arg_export_format = ''npz'', arg_device = ''cuda''\<rparr>"

section \<open>Auxiliary facts\<close>

subsection \<open>Strings and patterns\<close>

lemma split_not_Nil: "split sep s \<noteq> []"
  by (induction s) (auto split: list.splits)

lemma hd_split: "hd (split sep s) = takeWhile (\<lambda>c. c \<noteq> sep) s"
  by (induction s) (auto split: list.splits simp: split_not_Nil)

lemma get_timestamp_takeWhile:
  "get_timestamp_from_filename n = takeWhile (\<lambda>c. c \<noteq> CHR ''_'') n"
  by (simp add: get_timestamp_from_filename_def hd_split)

lemma glob_match_literal:
  "CHR ''*'' \<notin> set p \<Longrightarrow> CHR ''?'' \<notin> set p \<Longrightarrow> glob_match p s = (s = p)"
  by (induction p s rule: glob_match.induct) auto

lemma glob_match_star:
  assumes "CHR ''*'' \<notin> set p" "CHR ''?'' \<notin> set p"
  shows "glob_match (CHR ''*'' # p) s = (\<exists>t. s = t @ p)"
proof (induction s)
  case Nil
  show ?case using assms by (cases p) (auto simp: glob_match_literal)
next
  case (Cons c cs)
  have "glob_match (CHR ''*'' # p) (c # cs) = (c # cs = p \<or> (\<exists>t. cs = t @ p))"
    using assms Cons by (simp add: glob_match_literal)
  also have "\<dots> = (\<exists>t. c # cs = t @ p)"
    by (auto simp: Cons_eq_append_conv)
  finally show ?case .
qed

lemma glob_match_undistorted:
  "glob_match ''*_undistorted.jpg'' n = (\<exists>t. n = t @ ''_undistorted.jpg'')"
  by (rule glob_match_star) simp_all

subsection \<open>Dictionaries\<close>

lemma map_of_foldl_dict_set:
  "map_of (foldl dict_set d kvs) = map_of d ++ map_of (rev kvs)"
proof (induction kvs arbitrary: d)
  case Nil
  show ?case by simp
next
  case (Cons kv kvs)
  obtain k v where kv: "kv = (k, v)" by (cases kv)
  have "map_of (foldl dict_set d (kv # kvs)) = map_of (dict_set d kv) ++ map_of (rev kvs)"
    using Cons by simp
  also have "\<dots> = (map_of d)(k \<mapsto> v) ++ map_of (rev kvs)"
    by (simp add: dict_set_def kv update_conv')
  also have "\<dots> = map_of d ++ map_of (rev (kv # kvs))"
    by (simp add: kv map_add_upd_left fun_eq_iff map_add_def split: option.splits)
  finally show ?case .
qed

lemma map_of_dict_of: "map_of (dict_of kvs) = map_of (rev kvs)"
  by (simp add: dict_of_def map_of_foldl_dict_set)

lemma set_keys_foldl:
  "set (keys (foldl dict_set d kvs)) = set (keys d) \<union> fst ` set kvs"
  by (induction kvs arbitrary: d) (auto simp: keys_def dict_set_def dom_update)

lemma set_keys_dict_of: "set (keys (dict_of kvs)) = fst ` set kvs"
  by (simp add: dict_of_def set_keys_foldl) (simp add: keys_def)

lemma distinct_keys_foldl:
  "distinct (keys d) \<Longrightarrow> distinct (keys (foldl dict_set d kvs))"
  by (induction kvs arbitrary: d) (auto simp: keys_def dict_set_def distinct_update)

lemma distinct_keys_dict_of: "distinct (keys (dict_of kvs))"
  unfolding dict_of_def by (rule distinct_keys_foldl) (simp add: keys_def)

lemma dict_get_in_keys:
  "k \<in> set (keys d) \<Longrightarrow> \<exists>v. dict_get d k = Inr v \<and> map_of d k = Some v"
  by (auto simp: dict_get_def keys_def map_of_eq_None_iff split: option.splits)

subsection \<open>The pair finder\<close>

lemma pairs_of_total:
  "set tss \<subseteq> set (keys d1) \<inter> set (keys d2) \<Longrightarrow>
   pairs_of d1 d2 tss = Inr (map (\<lambda>ts. (the (map_of d1 ts), the (map_of d2 ts))) tss)"
proof (induction tss)
  case Nil
  show ?case by simp
next
  case (Cons ts tss)
  from Cons.prems obtain l r where
    "dict_get d1 ts = Inr l" "map_of d1 ts = Some l"
    "dict_get d2 ts = Inr r" "map_of d2 ts = Some r"
    using dict_get_in_keys[of ts d1] dict_get_in_keys[of ts d2] by auto
  moreover have "pairs_of d1 d2 tss = Inr (map (\<lambda>ts. (the (map_of d1 ts), the (map_of d2 ts))) tss)"
    using Cons by simp
  ultimately show ?case by simp
qed

lemma set_common_timestamps:
  "set (common_timestamps d1 d2) = set (keys d1) \<inter> set (keys d2)"
  by (simp add: common_timestamps_def)

lemma find_stereo_pairs_eq:
  "find_stereo_pairs tree d1 d2 =
     Inr (map (\<lambda>ts. (the (map_of (stream_images tree d1) ts), the (map_of (stream_images tree d2) ts)))
              (common_timestamps (stream_images tree d1) (stream_images tree d2)))"
  by (simp add: find_stereo_pairs_def Let_def pairs_of_total set_common_timestamps)

lemma path_name_div [simp]: "path_name (path_div d n) = n"
  by (simp add: path_name_def path_div_def)

lemma file_key_div [simp]: "file_key (path_div d n) = get_timestamp_from_filename n"
  by (simp add: file_key_def)

lemma stream_images_Some:
  assumes "map_of (stream_images tree d) k = Some f"
  shows "f \<in> set (glob tree d ''*_undistorted.jpg'') \<and> file_key f = k"
proof -
  let ?kvs = "map (\<lambda>f. (get_timestamp_from_filename (path_name f), f)) (glob tree d ''*_undistorted.jpg'')"
  from assms have "map_of (rev ?kvs) k = Some f"
    by (simp add: stream_images_def map_of_dict_of)
  then have "(k, f) \<in> set ?kvs"
    using map_of_SomeD by fastforce
  then show ?thesis by (auto simp: file_key_def)
qed

lemma keys_stream_images: "set (keys (stream_images tree d)) = stream_keys tree d"
  by (simp add: stream_images_def set_keys_dict_of stream_keys_def image_image file_key_def)

lemma common_timestamps_eq:
  "common_timestamps (stream_images tree d1) (stream_images tree d2) =
     sorted_list_of_set (stream_keys tree d1 \<inter> stream_keys tree d2)"
  by (simp add: common_timestamps_def keys_stream_images)

lemma finite_stream_keys [simp]: "finite (stream_keys tree d)"
  by (simp add: stream_keys_def)

lemma stream_images_defined:
  "k \<in> stream_keys tree d \<Longrightarrow> \<exists>f. map_of (stream_images tree d) k = Some f"
  using keys_stream_images[of tree d]
  by (metis dict_get_in_keys)

lemma find_stereo_pairs_keys:
  assumes "find_stereo_pairs tree d1 d2 = Inr pairs"
  shows "map (file_key \<circ> fst) pairs =
           sorted_list_of_set (stream_keys tree d1 \<inter> stream_keys tree d2)"
proof -
  let ?K = "stream_keys tree d1 \<inter> stream_keys tree d2"
  have pairs: "pairs = map (\<lambda>ts. (the (map_of (stream_images tree d1) ts),
                                   the (map_of (stream_images tree d2) ts)))
                           (sorted_list_of_set ?K)"
    using assms by (simp add: find_stereo_pairs_eq common_timestamps_eq)
  have "file_key (the (map_of (stream_images tree d1) ts)) = ts" if "ts \<in> ?K" for ts
    using that stream_images_defined[of ts tree d1] stream_images_Some[of tree d1 ts] by auto
  then have "map (\<lambda>ts. file_key (the (map_of (stream_images tree d1) ts))) (sorted_list_of_set ?K)
             = map (\<lambda>ts. ts) (sorted_list_of_set ?K)"
    by (intro map_cong) auto
  then show ?thesis by (simp add: pairs comp_def)
qed

lemma find_stereo_pairs_members:
  assumes "find_stereo_pairs tree d1 d2 = Inr pairs" and "(l, r) \<in> set pairs"
  shows "l \<in> set (glob tree d1 ''*_undistorted.jpg'')
       \<and> r \<in> set (glob tree d2 ''*_undistorted.jpg'')
       \<and> file_key r = file_key l
       \<and> map_of (stream_images tree d1) (file_key l) = Some l
       \<and> map_of (stream_images tree d2) (file_key l) = Some r"
proof -
  let ?K = "stream_keys tree d1 \<inter> stream_keys tree d2"
  have "pairs = map (\<lambda>ts. (the (map_of (stream_images tree d1) ts),
                             the (map_of (stream_images tree d2) ts)))
                    (sorted_list_of_set ?K)"
    using assms(1) by (simp add: find_stereo_pairs_eq common_timestamps_eq)
  with assms(2) obtain ts where ts: "ts \<in> ?K"
    and l: "l = the (map_of (stream_images tree d1) ts)"
    and r: "r = the (map_of (stream_images tree d2) ts)"
    by auto
  from ts obtain f1 f2 where
    f: "map_of (stream_images tree d1) ts = Some f1" "map_of (stream_images tree d2) ts = Some f2"
    using stream_images_defined[of ts tree d1] stream_images_defined[of ts tree d2] by auto
  with stream_images_Some[OF f(1)] stream_images_Some[OF f(2)] l r
  show ?thesis by simp
qed

lemma find_stereo_pairs_returns: "\<exists>pairs. find_stereo_pairs tree d1 d2 = Inr pairs"
  by (simp add: find_stereo_pairs_eq)

subsection \<open>The pair processor\<close>

lemma inference_calls_append:
  "inference_calls (xs @ ys) = inference_calls xs @ inference_calls ys"
  by (induction xs rule: inference_calls.induct) simp_all

lemma load_calls_append: "load_calls (xs @ ys) = load_calls xs @ load_calls ys"
  by (induction xs rule: load_calls.induct) simp_all

lemma mkdir_calls_append: "mkdir_calls (xs @ ys) = mkdir_calls xs @ mkdir_calls ys"
  by (induction xs rule: mkdir_calls.induct) simp_all

lemma process_pairs_trace:
  "process_pairs ext m out fmt pairs w = (res, w') \<Longrightarrow>
   \<exists>n. n \<le> length pairs
     \<and> events w' = events w @ map (pair_event m out fmt) (take n pairs)
     \<and> (res = None \<longrightarrow> n = length pairs)
     \<and> (pairs \<noteq> [] \<longrightarrow> 0 < n)"
proof (induction pairs arbitrary: w)
  case Nil
  then show ?case by simp
next
  case (Cons p rest)
  obtain l r where p: "p = (l, r)" by (cases p)
  let ?ev = "pair_event m out fmt p"
  let ?w1 = "emit ?ev w"
  show ?case
  proof (cases "inference ext m [path_str l, path_str r]
                  (path_str (path_div out (''pair_'' @ file_key l))) fmt (fs ?w1)")
    case (Inl e)
    with Cons.prems have "res = Some e" "w' = ?w1"
      by (simp_all add: p Let_def pair_event_def file_key_def)
    then have "events w' = events w @ map (pair_event m out fmt) (take 1 (p # rest))"
      by (simp add: emit_def)
    moreover have "(1::nat) \<le> length (p # rest)" by simp
    ultimately show ?thesis using \<open>res = Some e\<close> by blast
  next
    case (Inr tree')
    with Cons.prems have "process_pairs ext m out fmt rest (?w1\<lparr>fs := tree'\<rparr>) = (res, w')"
      by (simp add: p Let_def pair_event_def file_key_def)
    from Cons.IH[OF this] obtain n where n: "n \<le> length rest"
      "events w' = events (?w1\<lparr>fs := tree'\<rparr>) @ map (pair_event m out fmt) (take n rest)"
      "res = None \<longrightarrow> n = length rest"
      by blast
    then have "events w' = events w @ map (pair_event m out fmt) (take (Suc n) (p # rest))"
      by (simp add: emit_def)
    moreover have "Suc n \<le> length (p # rest)" using n(1) by simp
    moreover have "res = None \<longrightarrow> Suc n = length (p # rest)" using n(3) by simp
    ultimately show ?thesis by blast
  qed
qed



lemma mkdir_calls_pair_events: "mkdir_calls (map (pair_event m out fmt) ps) = []"
  by (induction ps) (simp_all add: pair_event_def)

lemma process_stereo_pairs_reached:
  assumes "exists (fs w) (stream1 data_dir)" "exists (fs w) (stream2 data_dir)"
    and "find_stereo_pairs (fs w) (stream1 data_dir) (stream2 data_dir) = Inr pairs"
    and "pairs \<noteq> []"
    and "from_pretrained ext model_dir = Inr loaded"
    and "to_device ext loaded device = Inr model"
    and "mkdir ext output_dir (fs w) = Inr tree'"
  shows "process_stereo_pairs ext data_dir output_dir model_dir export_format device w =
           process_pairs ext model output_dir export_format pairs
             (w\<lparr>events := events w @
                  [Print (''Found '' @ str_nat (length pairs) @ '' stereo pairs''),
                   Print (''Loading model: '' @ model_dir),
                   FromPretrained model_dir, ToDevice loaded device, Mkdir output_dir],
                fs := tree'\<rparr>)"
  using assms
  by (simp add: process_stereo_pairs_def Let_def emit_def stream1_def stream2_def)

lemma process_stereo_pairs_empty:
  assumes "exists (fs w) (stream1 data_dir)" "exists (fs w) (stream2 data_dir)"
    and "find_stereo_pairs (fs w) (stream1 data_dir) (stream2 data_dir) = Inr []"
  shows "process_stereo_pairs ext data_dir output_dir model_dir export_format device w =
           (None, w\<lparr>events := events w @
                  [Print ''Found 0 stereo pairs'', Print ''No matching pairs found!'']\<rparr>)"
  using assms
  by (simp add: process_stereo_pairs_def Let_def emit_def stream1_def stream2_def str_nat.simps)

lemma find_stereo_pairs_empty_iff:
  "find_stereo_pairs tree d1 d2 = Inr [] \<longleftrightarrow> stream_keys tree d1 \<inter> stream_keys tree d2 = {}"
proof -
  obtain pairs where pairs: "find_stereo_pairs tree d1 d2 = Inr pairs"
    using find_stereo_pairs_returns by blast
  have "set (map (file_key \<circ> fst) pairs) = stream_keys tree d1 \<inter> stream_keys tree d2"
    by (simp only: find_stereo_pairs_keys[OF pairs]) simp
  then have "pairs = [] \<longleftrightarrow> stream_keys tree d1 \<inter> stream_keys tree d2 = {}"
    by (metis list.map_disc_iff set_empty)
  with pairs show ?thesis by simp
qed

subsection \<open>Concrete file trees\<close>

lemma glob_two_streams1:
  "glob (two_streams names1 names2) [''data'', ''stream_1201-1''] pat =
     map (path_div [''data'', ''stream_1201-1'']) (filter (glob_match pat) names1)"
  by (simp add: glob_def two_streams_def)

lemma glob_two_streams2:
  "glob (two_streams names1 names2) [''data'', ''stream_1201-2''] pat =
     map (path_div [''data'', ''stream_1201-2'']) (filter (glob_match pat) names2)"
  by (simp add: glob_def two_streams_def)

lemma stream_keys_two_streams1:
  "stream_keys (two_streams names1 names2) [''data'', ''stream_1201-1''] =
     set (map get_timestamp_from_filename (filter (glob_match ''*_undistorted.jpg'') names1))"
  by (simp add: stream_keys_def glob_two_streams1 image_image)

lemma stream_keys_two_streams2:
  "stream_keys (two_streams names1 names2) [''data'', ''stream_1201-2''] =
     set (map get_timestamp_from_filename (filter (glob_match ''*_undistorted.jpg'') names2))"
  by (simp add: stream_keys_def glob_two_streams2 image_image)

section \<open>The pair finder\<close>

text \<open>
  Claim C1. For any two directories the pair finder returns, without raising, one pair for
  every timestamp key that occurs among the files matching \<^verbatim>\<open>*_undistorted.jpg\<close> in
  both directories and no other pair: the keys of the returned pairs are distinct and are
  exactly the common keys. The left path of each pair is a matching file of the first
  directory, the right path one of the second, and both have the pair's key. In particular,
  when the first directory holds \<^verbatim>\<open>a_undistorted.jpg\<close> and \<^verbatim>\<open>b_undistorted.jpg\<close>
  and the second \<^verbatim>\<open>a_undistorted.jpg\<close> and \<^verbatim>\<open>c_undistorted.jpg\<close>, in whatever
  listing order, the result is the single pair of the two \<^verbatim>\<open>a\<close> files, keyed \<open>a\<close>.
\<close>

theorem find_stereo_pairs_one_per_common_key:
  "\<exists>pairs. find_stereo_pairs tree d1 d2 = Inr pairs
     \<and> distinct (map (file_key \<circ> fst) pairs)
     \<and> set (map (file_key \<circ> fst) pairs) = stream_keys tree d1 \<inter> stream_keys tree d2
     \<and> (\<forall>(l, r) \<in> set pairs.
           l \<in> set (glob tree d1 ''*_undistorted.jpg'')
         \<and> r \<in> set (glob tree d2 ''*_undistorted.jpg'')
         \<and> file_key r = file_key l)
     \<and> (\<forall>names1 names2.
           tree d1 = Some (Dir names1) \<and> set names1 = {''a_undistorted.jpg'', ''b_undistorted.jpg''}
         \<and> tree d2 = Some (Dir names2) \<and> set names2 = {''a_undistorted.jpg'', ''c_undistorted.jpg''}
         \<longrightarrow> pairs = [(path_div d1 ''a_undistorted.jpg'', path_div d2 ''a_undistorted.jpg'')]
           \<and> map (file_key \<circ> fst) pairs = [''a''])"
proof -
  obtain pairs where pairs: "find_stereo_pairs tree d1 d2 = Inr pairs"
    using find_stereo_pairs_returns by blast
  let ?K = "stream_keys tree d1 \<inter> stream_keys tree d2"
  have keys: "map (file_key \<circ> fst) pairs = sorted_list_of_set ?K"
    using pairs by (rule find_stereo_pairs_keys)
  have dist: "distinct (map (file_key \<circ> fst) pairs)"
    by (simp only: keys distinct_sorted_list_of_set)
  have kset: "set (map (file_key \<circ> fst) pairs) = ?K"
    by (simp only: keys) simp
  have mem: "\<forall>(l, r) \<in> set pairs.
           l \<in> set (glob tree d1 ''*_undistorted.jpg'')
         \<and> r \<in> set (glob tree d2 ''*_undistorted.jpg'')
         \<and> file_key r = file_key l"
    using find_stereo_pairs_members[OF pairs] by blast
  have ex: "pairs = [(path_div d1 ''a_undistorted.jpg'', path_div d2 ''a_undistorted.jpg'')]
           \<and> map (file_key \<circ> fst) pairs = [''a'']"
    if t1: "tree d1 = Some (Dir names1)"
      and n1: "set names1 = {''a_undistorted.jpg'', ''b_undistorted.jpg''}"
      and t2: "tree d2 = Some (Dir names2)"
      and n2: "set names2 = {''a_undistorted.jpg'', ''c_undistorted.jpg''}"
    for names1 names2
  proof -
    have g1: "set (glob tree d1 ''*_undistorted.jpg'')
                = {path_div d1 ''a_undistorted.jpg'', path_div d1 ''b_undistorted.jpg''}"
      using n1 by (auto simp: glob_def t1)
    have g2: "set (glob tree d2 ''*_undistorted.jpg'')
                = {path_div d2 ''a_undistorted.jpg'', path_div d2 ''c_undistorted.jpg''}"
      using n2 by (auto simp: glob_def t2)
    have K: "?K = {''a''}"
      by (auto simp: stream_keys_def g1 g2 get_timestamp_from_filename_def)
    have ks: "map (file_key \<circ> fst) pairs = [''a'']"
      by (simp add: keys K)
    then obtain l r where p: "pairs = [(l, r)]" and kl: "file_key l = ''a''"
      by (cases pairs) auto
    from mem p have "l \<in> set (glob tree d1 ''*_undistorted.jpg'')"
      "r \<in> set (glob tree d2 ''*_undistorted.jpg'')" "file_key r = file_key l"
      by auto
    with kl have "l = path_div d1 ''a_undistorted.jpg''" "r = path_div d2 ''a_undistorted.jpg''"
      by (auto simp: g1 g2 get_timestamp_from_filename_def)
    with p ks show ?thesis by simp
  qed
  have ex': "\<forall>names1 names2.
           tree d1 = Some (Dir names1) \<and> set names1 = {''a_undistorted.jpg'', ''b_undistorted.jpg''}
         \<and> tree d2 = Some (Dir names2) \<and> set names2 = {''a_undistorted.jpg'', ''c_undistorted.jpg''}
         \<longrightarrow> pairs = [(path_div d1 ''a_undistorted.jpg'', path_div d2 ''a_undistorted.jpg'')]
           \<and> map (file_key \<circ> fst) pairs = [''a'']"
    using ex by (intro allI impI) (elim conjE)
  show ?thesis
    by (rule exI[of _ pairs]) (intro conjI pairs dist kset mem ex')
qed

theorem find_stereo_pairs_one_per_common_key_witness:
  "two_streams [''b_undistorted.jpg'', ''a_undistorted.jpg'']
       [''a_undistorted.jpg'', ''c_undistorted.jpg''] [''data'', ''stream_1201-1'']
     = Some (Dir [''b_undistorted.jpg'', ''a_undistorted.jpg''])
   \<and> set [''b_undistorted.jpg'', ''a_undistorted.jpg'']
       = {''a_undistorted.jpg'', ''b_undistorted.jpg''}
   \<and> two_streams [''b_undistorted.jpg'', ''a_undistorted.jpg'']
       [''a_undistorted.jpg'', ''c_undistorted.jpg''] [''data'', ''stream_1201-2'']
     = Some (Dir [''a_undistorted.jpg'', ''c_undistorted.jpg''])
   \<and> set [''a_undistorted.jpg'', ''c_undistorted.jpg'']
       = {''a_undistorted.jpg'', ''c_undistorted.jpg''}
   \<and> find_stereo_pairs
        (two_streams [''b_undistorted.jpg'', ''a_undistorted.jpg'']
           [''a_undistorted.jpg'', ''c_undistorted.jpg''])
        [''data'', ''stream_1201-1''] [''data'', ''stream_1201-2'']
     = Inr [([''data'', ''stream_1201-1'', ''a_undistorted.jpg''],
             [''data'', ''stream_1201-2'', ''a_undistorted.jpg''])]"
proof -
  let ?n1 = "[''b_undistorted.jpg'', ''a_undistorted.jpg'']"
  let ?n2 = "[''a_undistorted.jpg'', ''c_undistorted.jpg'']"
  let ?t = "two_streams ?n1 ?n2"
  have h1: "?t [''data'', ''stream_1201-1''] = Some (Dir ?n1)"
    by (simp add: two_streams_def)
  have h2: "?t [''data'', ''stream_1201-2''] = Some (Dir ?n2)"
    by (simp add: two_streams_def)
  have s1: "set ?n1 = {''a_undistorted.jpg'', ''b_undistorted.jpg''}" by auto
  have s2: "set ?n2 = {''a_undistorted.jpg'', ''c_undistorted.jpg''}" by auto
  from find_stereo_pairs_one_per_common_key
         [of ?t "[''data'', ''stream_1201-1'']" "[''data'', ''stream_1201-2'']"]
  obtain pairs where
    p: "find_stereo_pairs ?t [''data'', ''stream_1201-1''] [''data'', ''stream_1201-2''] = Inr pairs"
    and ex: "\<forall>names1 names2.
           ?t [''data'', ''stream_1201-1''] = Some (Dir names1)
         \<and> set names1 = {''a_undistorted.jpg'', ''b_undistorted.jpg''}
         \<and> ?t [''data'', ''stream_1201-2''] = Some (Dir names2)
         \<and> set names2 = {''a_undistorted.jpg'', ''c_undistorted.jpg''}
         \<longrightarrow> pairs = [(path_div [''data'', ''stream_1201-1''] ''a_undistorted.jpg'',
                       path_div [''data'', ''stream_1201-2''] ''a_undistorted.jpg'')]
           \<and> map (file_key \<circ> fst) pairs = [''a'']"
    by blast
  from ex h1 s1 h2 s2
  have "pairs = [(path_div [''data'', ''stream_1201-1''] ''a_undistorted.jpg'',
                  path_div [''data'', ''stream_1201-2''] ''a_undistorted.jpg'')]"
    by blast
  with p h1 h2 s1 s2 show ?thesis by (simp add: path_div_def)
qed

text \<open>
  Claim C2. The returned pairs are in ascending order of their keys under string comparison
  (strictly ascending, the keys being distinct): the list of keys is the sorted list of the
  common keys. When the common keys are \<open>10\<close> and \<open>2\<close> the order is \<open>10\<close>, \<open>2\<close>, the
  order of the strings, and not \<open>2\<close>, \<open>10\<close>, the order of the numbers.
\<close>

theorem find_stereo_pairs_string_order:
  "\<exists>pairs. find_stereo_pairs tree d1 d2 = Inr pairs
     \<and> map (file_key \<circ> fst) pairs = sorted_list_of_set (stream_keys tree d1 \<inter> stream_keys tree d2)
     \<and> sorted_wrt (<) (map (file_key \<circ> fst) pairs)
     \<and> (stream_keys tree d1 \<inter> stream_keys tree d2 = {''10'', ''2''}
          \<longrightarrow> map (file_key \<circ> fst) pairs = [''10'', ''2'']
            \<and> map (file_key \<circ> fst) pairs \<noteq> [''2'', ''10''])"
proof -
  obtain pairs where pairs: "find_stereo_pairs tree d1 d2 = Inr pairs"
    using find_stereo_pairs_returns by blast
  let ?K = "stream_keys tree d1 \<inter> stream_keys tree d2"
  have keys: "map (file_key \<circ> fst) pairs = sorted_list_of_set ?K"
    using pairs by (rule find_stereo_pairs_keys)
  have srt: "sorted_wrt (<) (map (file_key \<circ> fst) pairs)"
    by (simp only: keys strict_sorted_list_of_set)
  have "sorted_list_of_set {''10'', ''2''} = [''10'', ''2'']"
    by simp
  then have ex: "?K = {''10'', ''2''}
          \<longrightarrow> map (file_key \<circ> fst) pairs = [''10'', ''2'']
            \<and> map (file_key \<circ> fst) pairs \<noteq> [''2'', ''10'']"
    by (simp add: keys)
  show ?thesis
    by (rule exI[of _ pairs]) (intro conjI pairs keys srt ex)
qed

theorem find_stereo_pairs_string_order_witness:
  "stream_keys (two_streams [''2_undistorted.jpg'', ''10_undistorted.jpg'']
                 [''10_undistorted.jpg'', ''7_undistorted.jpg'', ''2_undistorted.jpg''])
               [''data'', ''stream_1201-1'']
   \<inter> stream_keys (two_streams [''2_undistorted.jpg'', ''10_undistorted.jpg'']
                 [''10_undistorted.jpg'', ''7_undistorted.jpg'', ''2_undistorted.jpg''])
               [''data'', ''stream_1201-2'']
     = {''10'', ''2''}
   \<and> (\<exists>pairs. find_stereo_pairs
          (two_streams [''2_undistorted.jpg'', ''10_undistorted.jpg'']
             [''10_undistorted.jpg'', ''7_undistorted.jpg'', ''2_undistorted.jpg''])
          [''data'', ''stream_1201-1''] [''data'', ''stream_1201-2''] = Inr pairs
        \<and> map (file_key \<circ> fst) pairs = [''10'', ''2''])"
proof -
  let ?t = "two_streams [''2_undistorted.jpg'', ''10_undistorted.jpg'']
                 [''10_undistorted.jpg'', ''7_undistorted.jpg'', ''2_undistorted.jpg'']"
  have K: "stream_keys ?t [''data'', ''stream_1201-1'']
             \<inter> stream_keys ?t [''data'', ''stream_1201-2''] = {''10'', ''2''}"
    by (auto simp add: stream_keys_two_streams1 stream_keys_two_streams2
          get_timestamp_from_filename_def)
  from find_stereo_pairs_string_order
         [of ?t "[''data'', ''stream_1201-1'']" "[''data'', ''stream_1201-2'']"]
  obtain pairs where
    p: "find_stereo_pairs ?t [''data'', ''stream_1201-1''] [''data'', ''stream_1201-2''] = Inr pairs"
    and ex: "stream_keys ?t [''data'', ''stream_1201-1'']
               \<inter> stream_keys ?t [''data'', ''stream_1201-2''] = {''10'', ''2''}
             \<longrightarrow> map (file_key \<circ> fst) pairs = [''10'', ''2'']
               \<and> map (file_key \<circ> fst) pairs \<noteq> [''2'', ''10'']"
    by (elim exE conjE)
  from ex K have "map (file_key \<circ> fst) pairs = [''10'', ''2'']"
    by (elim impE conjE)
  with p have "\<exists>pairs. find_stereo_pairs ?t [''data'', ''stream_1201-1'']
      [''data'', ''stream_1201-2''] = Inr pairs \<and> map (file_key \<circ> fst) pairs = [''10'', ''2'']"
    by (intro exI[of _ pairs] conjI)
  with K show ?thesis by (rule conjI)
qed



section \<open>The top-level operation\<close>

subsection \<open>Evaluation on the concrete inputs\<close>

lemma find_two_streams:
  "find_stereo_pairs (two_streams names1 names2) [''data'', ''stream_1201-1''] [''data'', ''stream_1201-2''] =
     (let images1 = dict_of (map (\<lambda>n. (get_timestamp_from_filename n, [''data'', ''stream_1201-1'', n]))
                               (filter (glob_match ''*_undistorted.jpg'') names1));
          images2 = dict_of (map (\<lambda>n. (get_timestamp_from_filename n, [''data'', ''stream_1201-2'', n]))
                               (filter (glob_match ''*_undistorted.jpg'') names2))
      in pairs_of images1 images2 (sorted_list_of_set (set (keys images1) \<inter> set (keys images2))))"
  by (simp add: find_stereo_pairs_def stream_images_def glob_two_streams1 glob_two_streams2
        comp_def path_div_def path_name_def common_timestamps_def Let_def)

lemma exists_two_streams:
  "exists (fs (start (two_streams names1 names2))) (stream1 [''data''])"
  "exists (fs (start (two_streams names1 names2))) (stream2 [''data''])"
  by (simp_all add: exists_def start_def two_streams_def stream1_def stream2_def path_div_def)

lemma streams_of_data:
  "stream1 [''data''] = [''data'', ''stream_1201-1'']"
  "stream2 [''data''] = [''data'', ''stream_1201-2'']"
  by (simp_all add: stream1_def stream2_def path_div_def)

lemma main_eq:
  "main ext a w =
     (case process_stereo_pairs ext (arg_data_dir a)
             (case arg_output_dir a of Some d \<Rightarrow> d
              | None \<Rightarrow> path_div (arg_data_dir a) ''depth_output'')
             (arg_model_dir a) (arg_export_format a) (arg_device a) w of
        (None, w') \<Rightarrow> (0, w')
      | (Some e, w') \<Rightarrow> (1, w'))"
  by (simp add: main_def Let_def)

subsection \<open>Runs that end before the model is loaded\<close>

text \<open>
  Claim C3. When both stream directories exist and no key is common to them, the top-level
  operation prints the count, \<^verbatim>\<open>Found 0 stereo pairs\<close>, and the message
  \<^verbatim>\<open>No matching pairs found!\<close>, and returns normally, so that the script exits with
  status 0. These two prints are all it does: the file tree is unchanged, and the trace
  gains no model load, no inference call and no directory creation, the output root included.
\<close>

theorem no_common_key_returns_normally:
  assumes "exists (fs w) (stream1 data_dir)" and "exists (fs w) (stream2 data_dir)"
    and "stream_keys (fs w) (stream1 data_dir) \<inter> stream_keys (fs w) (stream2 data_dir) = {}"
  shows "\<exists>w'. process_stereo_pairs ext data_dir output_dir model_dir export_format device w
               = (None, w')
     \<and> main ext (a\<lparr>arg_data_dir := data_dir\<rparr>) w = (0, w')
     \<and> w' = w\<lparr>events := events w @
                 [Print ''Found 0 stereo pairs'', Print ''No matching pairs found!'']\<rparr>
     \<and> fs w' = fs w
     \<and> load_calls (events w') = load_calls (events w)
     \<and> inference_calls (events w') = inference_calls (events w)
     \<and> mkdir_calls (events w') = mkdir_calls (events w)"
proof -
  let ?w' = "w\<lparr>events := events w @
                 [Print ''Found 0 stereo pairs'', Print ''No matching pairs found!'']\<rparr>"
  have none: "find_stereo_pairs (fs w) (stream1 data_dir) (stream2 data_dir) = Inr []"
    using assms(3) by (simp add: find_stereo_pairs_empty_iff)
  have run: "process_stereo_pairs ext data_dir out md fmt dev w = (None, ?w')" for out md fmt dev
    using assms(1,2) none by (rule process_stereo_pairs_empty)
  have "main ext (a\<lparr>arg_data_dir := data_dir\<rparr>) w = (0, ?w')"
    by (simp add: main_eq run)
  moreover have "load_calls (events ?w') = load_calls (events w)"
    "inference_calls (events ?w') = inference_calls (events w)"
    "mkdir_calls (events ?w') = mkdir_calls (events w)"
    by (simp_all add: load_calls_append inference_calls_append mkdir_calls_append)
  ultimately show ?thesis using run by simp
qed

theorem no_common_key_returns_normally_witness:
  "exists (fs (start (two_streams [''a_undistorted.jpg''] [''b_undistorted.jpg''])))
     (stream1 [''data''])
   \<and> exists (fs (start (two_streams [''a_undistorted.jpg''] [''b_undistorted.jpg''])))
     (stream2 [''data''])
   \<and> stream_keys (fs (start (two_streams [''a_undistorted.jpg''] [''b_undistorted.jpg''])))
       (stream1 [''data''])
     \<inter> stream_keys (fs (start (two_streams [''a_undistorted.jpg''] [''b_undistorted.jpg''])))
       (stream2 [''data'']) = {}
   \<and> process_stereo_pairs working_ext [''data''] [''data'', ''depth_output'']
        ''depth-anything/DA3NESTED-GIANT-LARGE-1.1'' ''npz'' ''cuda''
        (start (two_streams [''a_undistorted.jpg''] [''b_undistorted.jpg'']))
     = (None,
        \<lparr>fs = two_streams [''a_undistorted.jpg''] [''b_undistorted.jpg''],
         events = [Print ''Found 0 stereo pairs'', Print ''No matching pairs found!'']\<rparr>)
   \<and> main working_ext default_args
        (start (two_streams [''a_undistorted.jpg''] [''b_undistorted.jpg'']))
     = (0,
        \<lparr>fs = two_streams [''a_undistorted.jpg''] [''b_undistorted.jpg''],
         events = [Print ''Found 0 stereo pairs'', Print ''No matching pairs found!'']\<rparr>)"
proof -
  let ?w = "start (two_streams [''a_undistorted.jpg''] [''b_undistorted.jpg''])"
  have h1: "exists (fs ?w) (stream1 [''data''])" and h2: "exists (fs ?w) (stream2 [''data''])"
    by (rule exists_two_streams)+
  have h3: "stream_keys (fs ?w) (stream1 [''data'']) \<inter> stream_keys (fs ?w) (stream2 [''data'']) = {}"
    by (simp add: start_def streams_of_data stream_keys_two_streams1 stream_keys_two_streams2
          get_timestamp_from_filename_def)
  have a: "default_args\<lparr>arg_data_dir := [''data'']\<rparr> = default_args"
    by (simp add: default_args_def)
  from no_common_key_returns_normally [OF h1 h2 h3, of working_ext "[''data'', ''depth_output'']"
         "''depth-anything/DA3NESTED-GIANT-LARGE-1.1''" "''npz''" "''cuda''" default_args]
  have "process_stereo_pairs working_ext [''data''] [''data'', ''depth_output'']
        ''depth-anything/DA3NESTED-GIANT-LARGE-1.1'' ''npz'' ''cuda'' ?w
     = (None, \<lparr>fs = two_streams [''a_undistorted.jpg''] [''b_undistorted.jpg''],
         events = [Print ''Found 0 stereo pairs'', Print ''No matching pairs found!'']\<rparr>)"
    and "main working_ext default_args ?w
     = (0, \<lparr>fs = two_streams [''a_undistorted.jpg''] [''b_undistorted.jpg''],
         events = [Print ''Found 0 stereo pairs'', Print ''No matching pairs found!'']\<rparr>)"
    by (auto simp add: a start_def)
  with h1 h2 h3 show ?thesis by (intro conjI)
qed



subsection \<open>Runs with pairs to process\<close>

lemma process_stereo_pairs_reached_trace:
  assumes "exists (fs w) (stream1 data_dir)" and "exists (fs w) (stream2 data_dir)"
    and "find_stereo_pairs (fs w) (stream1 data_dir) (stream2 data_dir) = Inr pairs"
    and "pairs \<noteq> []"
    and "from_pretrained ext model_dir = Inr loaded"
    and "to_device ext loaded device = Inr model"
    and "mkdir ext output_dir (fs w) = Inr tree'"
    and "process_stereo_pairs ext data_dir output_dir model_dir export_format device w = (res, w')"
  shows "\<exists>n. 0 < n \<and> n \<le> length pairs
     \<and> events w' = events w @
          [Print (''Found '' @ str_nat (length pairs) @ '' stereo pairs''),
           Print (''Loading model: '' @ model_dir),
           FromPretrained model_dir, ToDevice loaded device, Mkdir output_dir]
          @ map (pair_event model output_dir export_format) (take n pairs)
     \<and> (res = None \<longrightarrow> n = length pairs)"
proof -
  let ?w0 = "w\<lparr>events := events w @
                  [Print (''Found '' @ str_nat (length pairs) @ '' stereo pairs''),
                   Print (''Loading model: '' @ model_dir),
                   FromPretrained model_dir, ToDevice loaded device, Mkdir output_dir],
                fs := tree'\<rparr>"
  have "process_pairs ext model output_dir export_format pairs ?w0 = (res, w')"
    using process_stereo_pairs_reached[OF assms(1-7), of export_format] assms(8) by simp
  from process_pairs_trace[OF this] assms(4) show ?thesis
    by auto
qed

lemma str_nat_small:
  "str_nat 0 = ''0''"
  "str_nat (Suc 0) = ''1''"
  "str_nat (Suc (Suc 0)) = ''2''"
  "str_nat (Suc (Suc (Suc 0))) = ''3''"
  by (simp_all add: str_nat.simps)

lemma working_ext_simps:
  "from_pretrained working_ext model_dir = Inr (model_dir, ''unplaced'')"
  "to_device working_ext m device = Inr (fst m, device)"
  "inference working_ext m inputs export_dir export_format tree = Inr tree"
  "tree p = None \<Longrightarrow> mkdir working_ext p tree = Inr (tree(p \<mapsto> Dir []))"
  by (simp_all add: working_ext_def)

lemma load_raises_simps:
  "from_pretrained load_raises model_dir = Inl (ExternalError ''no such model'')"
  by (simp add: load_raises_def)

lemma device_raises_simps:
  "from_pretrained device_raises model_dir = Inr (model_dir, ''unplaced'')"
  "to_device device_raises m device = Inl (ExternalError ''no such device'')"
  by (simp_all add: device_raises_def working_ext_def)



lemma find_a_a:
  "find_stereo_pairs (fs (start (two_streams [''a_undistorted.jpg''] [''a_undistorted.jpg''])))
     (stream1 [''data'']) (stream2 [''data''])
   = Inr [([''data'', ''stream_1201-1'', ''a_undistorted.jpg''],
           [''data'', ''stream_1201-2'', ''a_undistorted.jpg''])]"
  by (simp add: start_def streams_of_data find_two_streams Let_def dict_of_def dict_set_def
        keys_def dict_get_def get_timestamp_from_filename_def)

text \<open>
  Claim C10. In a run with a non-empty pair list the output root is created only after the
  model is loaded and moved to the device. If \<^verbatim>\<open>from_pretrained\<close> raises, the run ends
  with that error after the two prints and the load call; if moving the model to the device
  raises, it ends with that error after the call that moves it. In both cases no directory
  creation is in the trace and the file tree is as it was. When both calls return, the
  creation of the output root follows them in the trace, and it is the only creation.
\<close>

theorem output_root_created_after_load:
  assumes "exists (fs w) (stream1 data_dir)" and "exists (fs w) (stream2 data_dir)"
    and "find_stereo_pairs (fs w) (stream1 data_dir) (stream2 data_dir) = Inr pairs"
    and "pairs \<noteq> []"
    and "process_stereo_pairs ext data_dir output_dir model_dir export_format device w = (res, w')"
  shows "case from_pretrained ext model_dir of
           Inl e \<Rightarrow>
             res = Some e \<and> fs w' = fs w
             \<and> mkdir_calls (events w') = mkdir_calls (events w)
             \<and> events w' = events w @
                  [Print (''Found '' @ str_nat (length pairs) @ '' stereo pairs''),
                   Print (''Loading model: '' @ model_dir), FromPretrained model_dir]
         | Inr loaded \<Rightarrow>
            (case to_device ext loaded device of
               Inl e \<Rightarrow>
                 res = Some e \<and> fs w' = fs w
                 \<and> mkdir_calls (events w') = mkdir_calls (events w)
                 \<and> events w' = events w @
                      [Print (''Found '' @ str_nat (length pairs) @ '' stereo pairs''),
                       Print (''Loading model: '' @ model_dir), FromPretrained model_dir,
                       ToDevice loaded device]
             | Inr model \<Rightarrow>
                 (\<exists>rest. events w' = events w @
                      [Print (''Found '' @ str_nat (length pairs) @ '' stereo pairs''),
                       Print (''Loading model: '' @ model_dir), FromPretrained model_dir,
                       ToDevice loaded device, Mkdir output_dir] @ rest
                    \<and> mkdir_calls rest = []))"
proof (cases "from_pretrained ext model_dir")
  case (Inl e)
  with assms show ?thesis
    by (auto simp add: process_stereo_pairs_def Let_def emit_def stream1_def stream2_def
          mkdir_calls_append)
next
  case load: (Inr loaded)
  show ?thesis
  proof (cases "to_device ext loaded device")
    case (Inl e)
    with assms load show ?thesis
      by (auto simp add: process_stereo_pairs_def Let_def emit_def stream1_def stream2_def
            mkdir_calls_append)
  next
    case to: (Inr model)
    show ?thesis
    proof (cases "mkdir ext output_dir (fs w)")
      case (Inl e)
      with assms load to have "events w' = events w @
                      [Print (''Found '' @ str_nat (length pairs) @ '' stereo pairs''),
                       Print (''Loading model: '' @ model_dir), FromPretrained model_dir,
                       ToDevice loaded device, Mkdir output_dir] @ []"
        by (auto simp add: process_stereo_pairs_def Let_def emit_def stream1_def stream2_def)
      then show ?thesis using load to by (simp del: append_Nil2)
    next
      case (Inr tree')
      from process_stereo_pairs_reached_trace[OF assms(1-4) load to Inr assms(5)]
      obtain n where "events w' = events w @
          [Print (''Found '' @ str_nat (length pairs) @ '' stereo pairs''),
           Print (''Loading model: '' @ model_dir),
           FromPretrained model_dir, ToDevice loaded device, Mkdir output_dir]
          @ map (pair_event model output_dir export_format) (take n pairs)"
        by blast
      moreover have "mkdir_calls (map (pair_event model output_dir export_format) (take n pairs)) = []"
        by (rule mkdir_calls_pair_events)
      ultimately show ?thesis using load to by simp
    qed
  qed
qed

theorem output_root_created_after_load_witness:
  "fst (process_stereo_pairs load_raises [''data''] [''data'', ''depth_output'']
          ''da3'' ''npz'' ''cuda''
          (start (two_streams [''a_undistorted.jpg''] [''a_undistorted.jpg''])))
     = Some (ExternalError ''no such model'')
   \<and> fs (snd (process_stereo_pairs load_raises [''data''] [''data'', ''depth_output'']
          ''da3'' ''npz'' ''cuda''
          (start (two_streams [''a_undistorted.jpg''] [''a_undistorted.jpg'']))))
     = two_streams [''a_undistorted.jpg''] [''a_undistorted.jpg'']
   \<and> events (snd (process_stereo_pairs load_raises [''data''] [''data'', ''depth_output'']
          ''da3'' ''npz'' ''cuda''
          (start (two_streams [''a_undistorted.jpg''] [''a_undistorted.jpg'']))))
     = [Print ''Found 1 stereo pairs'', Print ''Loading model: da3'', FromPretrained ''da3'']
   \<and> fst (process_stereo_pairs device_raises [''data''] [''data'', ''depth_output'']
          ''da3'' ''npz'' ''cuda''
          (start (two_streams [''a_undistorted.jpg''] [''a_undistorted.jpg''])))
     = Some (ExternalError ''no such device'')
   \<and> fs (snd (process_stereo_pairs device_raises [''data''] [''data'', ''depth_output'']
          ''da3'' ''npz'' ''cuda''
          (start (two_streams [''a_undistorted.jpg''] [''a_undistorted.jpg'']))))
     = two_streams [''a_undistorted.jpg''] [''a_undistorted.jpg'']
   \<and> events (snd (process_stereo_pairs device_raises [''data''] [''data'', ''depth_output'']
          ''da3'' ''npz'' ''cuda''
          (start (two_streams [''a_undistorted.jpg''] [''a_undistorted.jpg'']))))
     = [Print ''Found 1 stereo pairs'', Print ''Loading model: da3'', FromPretrained ''da3'',
        ToDevice (''da3'', ''unplaced'') ''cuda'']
   \<and> take 5 (events (snd (process_stereo_pairs working_ext [''data''] [''data'', ''depth_output'']
          ''da3'' ''npz'' ''cuda''
          (start (two_streams [''a_undistorted.jpg''] [''a_undistorted.jpg''])))))
     = [Print ''Found 1 stereo pairs'', Print ''Loading model: da3'', FromPretrained ''da3'',
        ToDevice (''da3'', ''unplaced'') ''cuda'', Mkdir [''data'', ''depth_output'']]"
proof -
  let ?w = "start (two_streams [''a_undistorted.jpg''] [''a_undistorted.jpg''])"
  let ?run = "\<lambda>ext. process_stereo_pairs ext [''data''] [''data'', ''depth_output'']
                 ''da3'' ''npz'' ''cuda'' ?w"
  have h1: "exists (fs ?w) (stream1 [''data''])" and h2: "exists (fs ?w) (stream2 [''data''])"
    by (rule exists_two_streams)+
  note h3 = find_a_a
  have h4: "[([''data'', ''stream_1201-1'', ''a_undistorted.jpg''],
              [''data'', ''stream_1201-2'', ''a_undistorted.jpg''])] \<noteq> []"
    by simp
  have run: "?run ext = (fst (?run ext), snd (?run ext))" for ext
    by simp
  have e: "events ?w = []" "fs ?w = two_streams [''a_undistorted.jpg''] [''a_undistorted.jpg'']"
    by (simp_all add: start_def)
  note n = str_nat_small
  from output_root_created_after_load [OF h1 h2 h3 h4 run [of load_raises]]
  have a: "fst (?run load_raises) = Some (ExternalError ''no such model'')"
    "fs (snd (?run load_raises)) = two_streams [''a_undistorted.jpg''] [''a_undistorted.jpg'']"
    "events (snd (?run load_raises))
       = [Print ''Found 1 stereo pairs'', Print ''Loading model: da3'', FromPretrained ''da3'']"
    by (simp_all add: load_raises_simps e n)
  from output_root_created_after_load [OF h1 h2 h3 h4 run [of device_raises]]
  have b: "fst (?run device_raises) = Some (ExternalError ''no such device'')"
    "fs (snd (?run device_raises)) = two_streams [''a_undistorted.jpg''] [''a_undistorted.jpg'']"
    "events (snd (?run device_raises))
       = [Print ''Found 1 stereo pairs'', Print ''Loading model: da3'', FromPretrained ''da3'',
          ToDevice (''da3'', ''unplaced'') ''cuda'']"
    by (simp_all add: device_raises_simps e n)
  from output_root_created_after_load [OF h1 h2 h3 h4 run [of working_ext]]
  have c: "take 5 (events (snd (?run working_ext)))
       = [Print ''Found 1 stereo pairs'', Print ''Loading model: da3'', FromPretrained ''da3'',
          ToDevice (''da3'', ''unplaced'') ''cuda'', Mkdir [''data'', ''depth_output'']]"
    by (auto simp add: working_ext_simps e n)
  from a b c show ?thesis by (intro conjI)
qed

subsection \<open>The loop over the pairs\<close>
















section \<open>Timestamp keys\<close>

subsection \<open>The key of a file name\<close>

lemma takeWhile_underscore_append:
  "takeWhile (\<lambda>c. c \<noteq> CHR ''_'') (t @ CHR ''_'' # rest) = takeWhile (\<lambda>c. c \<noteq> CHR ''_'') t"
  by (induction t) simp_all

lemma takeWhile_underscore_id:
  "takeWhile (\<lambda>c. c \<noteq> CHR ''_'') t = t \<longleftrightarrow> CHR ''_'' \<notin> set t"
  by (induction t) (auto dest: set_takeWhileD)

text \<open>
  Claim C7, as amended. The timestamp key of a file name is the part of the name before its
  first underscore, and the whole name when it has no underscore. The pattern
  \<^verbatim>\<open>*_undistorted.jpg\<close> selects exactly the names \<open>t\<close> followed by
  \<^verbatim>\<open>_undistorted.jpg\<close>, and the key of such a name is the part of \<open>t\<close> before the
  first underscore of \<open>t\<close>: it is \<open>t\<close> itself exactly when \<open>t\<close> has no underscore.
\<close>

theorem timestamp_key_is_prefix_before_first_underscore:
  "(CHR ''_'' \<notin> set k \<longrightarrow> get_timestamp_from_filename (k @ CHR ''_'' # rest) = k)
   \<and> (CHR ''_'' \<notin> set n \<longrightarrow> get_timestamp_from_filename n = n)
   \<and> (glob_match ''*_undistorted.jpg'' n \<longleftrightarrow> (\<exists>t. n = t @ ''_undistorted.jpg''))
   \<and> get_timestamp_from_filename (t @ ''_undistorted.jpg'')
       = takeWhile (\<lambda>c. c \<noteq> CHR ''_'') t
   \<and> (get_timestamp_from_filename (t @ ''_undistorted.jpg'') = t \<longleftrightarrow> CHR ''_'' \<notin> set t)"
proof -
  have a: "CHR ''_'' \<notin> set k \<longrightarrow> get_timestamp_from_filename (k @ CHR ''_'' # rest) = k"
    by (auto simp add: get_timestamp_takeWhile takeWhile_underscore_append)
  have b: "CHR ''_'' \<notin> set n \<longrightarrow> get_timestamp_from_filename n = n"
    by (auto simp add: get_timestamp_takeWhile)
  have c: "get_timestamp_from_filename (t @ ''_undistorted.jpg'')
       = takeWhile (\<lambda>c. c \<noteq> CHR ''_'') t"
    by (simp add: get_timestamp_takeWhile takeWhile_underscore_append)
  have d: "get_timestamp_from_filename (t @ ''_undistorted.jpg'') = t \<longleftrightarrow> CHR ''_'' \<notin> set t"
    by (simp only: c takeWhile_underscore_id)
  from a b glob_match_undistorted c d show ?thesis
    by (intro conjI)
qed

theorem timestamp_key_is_prefix_before_first_underscore_witness:
  "CHR ''_'' \<notin> set ''44335766666666''
   \<and> get_timestamp_from_filename (''44335766666666'' @ CHR ''_'' # ''undistorted.jpg'')
       = ''44335766666666''
   \<and> CHR ''_'' \<notin> set ''README''
   \<and> get_timestamp_from_filename ''README'' = ''README''
   \<and> glob_match ''*_undistorted.jpg'' ''44335766666666_undistorted.jpg''
   \<and> get_timestamp_from_filename (''left_44335766666666'' @ ''_undistorted.jpg'') = ''left''"
proof -
  have h1: "CHR ''_'' \<notin> set ''44335766666666''" by simp
  have h2: "CHR ''_'' \<notin> set ''README''" by simp
  have h3: "\<exists>t. ''44335766666666_undistorted.jpg'' = t @ ''_undistorted.jpg''"
    by (rule exI[of _ "''44335766666666''"]) simp
  note key = timestamp_key_is_prefix_before_first_underscore
  have a: "get_timestamp_from_filename (''44335766666666'' @ CHR ''_'' # ''undistorted.jpg'')
       = ''44335766666666''"
    by (rule key [THEN conjunct1, THEN mp, OF h1])
  have b: "get_timestamp_from_filename ''README'' = ''README''"
    by (rule key [THEN conjunct2, THEN conjunct1, THEN mp, OF h2])
  have c: "glob_match ''*_undistorted.jpg'' ''44335766666666_undistorted.jpg''"
    by (rule key [THEN conjunct2, THEN conjunct2, THEN conjunct1, THEN iffD2, OF h3])
  have "get_timestamp_from_filename (''left_44335766666666'' @ ''_undistorted.jpg'')
          = takeWhile (\<lambda>c. c \<noteq> CHR ''_'') ''left_44335766666666''"
    by (rule key [THEN conjunct2, THEN conjunct2, THEN conjunct2, THEN conjunct1])
  then have d: "get_timestamp_from_filename (''left_44335766666666'' @ ''_undistorted.jpg'') = ''left''"
    by simp
  from h1 a h2 b c d show ?thesis by (intro conjI)
qed

text \<open>
  The claim as first stated, with key \<open>t\<close> for every selected file, fails for a stem with
  an underscore: \<^verbatim>\<open>a_b_undistorted.jpg\<close> is selected and its key is \<open>a\<close>.
\<close>

theorem matched_file_key_differs_from_stem:
  "glob_match ''*_undistorted.jpg'' (''a_b'' @ ''_undistorted.jpg'')
   \<and> get_timestamp_from_filename (''a_b'' @ ''_undistorted.jpg'') = ''a''
   \<and> get_timestamp_from_filename (''a_b'' @ ''_undistorted.jpg'') \<noteq> ''a_b''"
  by (simp add: get_timestamp_from_filename_def)

subsection \<open>Files that share a key\<close>

lemma stream_images_last:
  assumes "glob tree d ''*_undistorted.jpg'' = pre @ f # post"
    and "file_key f \<notin> file_key ` set post"
  shows "map_of (stream_images tree d) (file_key f) = Some f"
proof -
  let ?g = "\<lambda>f. (get_timestamp_from_filename (path_name f), f)"
  have "map_of (rev (map ?g post)) (file_key f) = None"
    using assms(2) by (auto simp add: map_of_eq_None_iff file_key_def image_image rev_map)
  then have "map_of (rev (map ?g (pre @ f # post))) (file_key f) = Some f"
    by (simp add: map_add_def file_key_def)
  then show ?thesis
    by (simp add: stream_images_def map_of_dict_of assms(1))
qed

lemma left_in_pairs_iff:
  assumes "find_stereo_pairs tree d1 d2 = Inr pairs"
  shows "f \<in> fst ` set pairs \<longleftrightarrow>
           map_of (stream_images tree d1) (file_key f) = Some f
         \<and> file_key f \<in> stream_keys tree d2"
proof
  assume "f \<in> fst ` set pairs"
  then obtain r where "(f, r) \<in> set pairs" by auto
  from find_stereo_pairs_members[OF assms this]
  have "map_of (stream_images tree d1) (file_key f) = Some f"
    and "r \<in> set (glob tree d2 ''*_undistorted.jpg'')" and "file_key r = file_key f"
    by simp_all
  moreover from this(2) have "file_key r \<in> stream_keys tree d2"
    unfolding stream_keys_def by (rule imageI)
  ultimately show "map_of (stream_images tree d1) (file_key f) = Some f
         \<and> file_key f \<in> stream_keys tree d2"
    by simp
next
  assume a: "map_of (stream_images tree d1) (file_key f) = Some f
         \<and> file_key f \<in> stream_keys tree d2"
  then have "f \<in> set (glob tree d1 ''*_undistorted.jpg'')"
    using stream_images_Some[of tree d1 "file_key f" f] by simp
  then have "file_key f \<in> stream_keys tree d1"
    unfolding stream_keys_def by (rule imageI)
  with a have "file_key f \<in> set (map (file_key \<circ> fst) pairs)"
    by (simp only: find_stereo_pairs_keys[OF assms]) simp
  then obtain l r where lr: "(l, r) \<in> set pairs" "file_key l = file_key f"
    by auto
  from find_stereo_pairs_members[OF assms lr(1)]
  have "map_of (stream_images tree d1) (file_key l) = Some l" by (elim conjE)
  then have "map_of (stream_images tree d1) (file_key f) = Some l" by (simp only: lr(2))
  with a have "l = f" by simp
  with lr(1) show "f \<in> fst ` set pairs" by force
qed

lemma right_in_pairs_iff:
  assumes "find_stereo_pairs tree d1 d2 = Inr pairs"
  shows "f \<in> snd ` set pairs \<longleftrightarrow>
           map_of (stream_images tree d2) (file_key f) = Some f
         \<and> file_key f \<in> stream_keys tree d1"
proof
  assume "f \<in> snd ` set pairs"
  then obtain l where "(l, f) \<in> set pairs" by auto
  from find_stereo_pairs_members[OF assms this]
  have "map_of (stream_images tree d2) (file_key l) = Some f"
    and "l \<in> set (glob tree d1 ''*_undistorted.jpg'')" and "file_key f = file_key l"
    by simp_all
  moreover from this(2) have "file_key l \<in> stream_keys tree d1"
    unfolding stream_keys_def by (rule imageI)
  ultimately show "map_of (stream_images tree d2) (file_key f) = Some f
         \<and> file_key f \<in> stream_keys tree d1"
    by simp
next
  assume a: "map_of (stream_images tree d2) (file_key f) = Some f
         \<and> file_key f \<in> stream_keys tree d1"
  then have "f \<in> set (glob tree d2 ''*_undistorted.jpg'')"
    using stream_images_Some[of tree d2 "file_key f" f] by simp
  then have "file_key f \<in> stream_keys tree d2"
    unfolding stream_keys_def by (rule imageI)
  with a have "file_key f \<in> set (map (file_key \<circ> fst) pairs)"
    by (simp only: find_stereo_pairs_keys[OF assms]) simp
  then obtain l r where lr: "(l, r) \<in> set pairs" "file_key l = file_key f"
    by auto
  from find_stereo_pairs_members[OF assms lr(1)]
  have "map_of (stream_images tree d2) (file_key l) = Some r" by (elim conjE)
  then have "map_of (stream_images tree d2) (file_key f) = Some r" by (simp only: lr(2))
  with a have "r = f" by simp
  with lr(1) show "f \<in> snd ` set pairs" by force
qed

text \<open>
  Claim C8, as amended. Keys are not required to be unique in a directory, and the finder
  never raises. When two different selected files of one directory have the same key, the
  second of them being the last file listed with that key, the mapping built for the
  directory holds the second file under the key. The first file is in no returned pair. The
  second is in a returned pair exactly when the key also occurs in the other directory. This
  holds for the first directory and the left paths as for the second directory and the right
  paths.
\<close>

theorem duplicate_key_last_listed_wins:
  "\<exists>pairs. find_stereo_pairs tree d1 d2 = Inr pairs
     \<and> (\<forall>pre f2 post f1.
           glob tree d1 ''*_undistorted.jpg'' = pre @ f2 # post
         \<and> f1 \<in> set pre \<and> f1 \<noteq> f2 \<and> file_key f1 = file_key f2
         \<and> file_key f2 \<notin> file_key ` set post
         \<longrightarrow> map_of (stream_images tree d1) (file_key f2) = Some f2
           \<and> f1 \<notin> fst ` set pairs
           \<and> (f2 \<in> fst ` set pairs \<longleftrightarrow> file_key f2 \<in> stream_keys tree d2))
     \<and> (\<forall>pre f2 post f1.
           glob tree d2 ''*_undistorted.jpg'' = pre @ f2 # post
         \<and> f1 \<in> set pre \<and> f1 \<noteq> f2 \<and> file_key f1 = file_key f2
         \<and> file_key f2 \<notin> file_key ` set post
         \<longrightarrow> map_of (stream_images tree d2) (file_key f2) = Some f2
           \<and> f1 \<notin> snd ` set pairs
           \<and> (f2 \<in> snd ` set pairs \<longleftrightarrow> file_key f2 \<in> stream_keys tree d1))"
proof -
  obtain pairs where pairs: "find_stereo_pairs tree d1 d2 = Inr pairs"
    using find_stereo_pairs_returns by blast
  have left: "map_of (stream_images tree d1) (file_key f2) = Some f2
           \<and> f1 \<notin> fst ` set pairs
           \<and> (f2 \<in> fst ` set pairs \<longleftrightarrow> file_key f2 \<in> stream_keys tree d2)"
    if "glob tree d1 ''*_undistorted.jpg'' = pre @ f2 # post"
      and "f1 \<noteq> f2" and "file_key f1 = file_key f2"
      and "file_key f2 \<notin> file_key ` set post"
    for pre f2 post f1
  proof -
    have m: "map_of (stream_images tree d1) (file_key f2) = Some f2"
      using that(1,4) by (rule stream_images_last)
    with that(2,3) show ?thesis
      by (simp add: left_in_pairs_iff[OF pairs])
  qed
  have right: "map_of (stream_images tree d2) (file_key f2) = Some f2
           \<and> f1 \<notin> snd ` set pairs
           \<and> (f2 \<in> snd ` set pairs \<longleftrightarrow> file_key f2 \<in> stream_keys tree d1)"
    if "glob tree d2 ''*_undistorted.jpg'' = pre @ f2 # post"
      and "f1 \<noteq> f2" and "file_key f1 = file_key f2"
      and "file_key f2 \<notin> file_key ` set post"
    for pre f2 post f1
  proof -
    have m: "map_of (stream_images tree d2) (file_key f2) = Some f2"
      using that(1,4) by (rule stream_images_last)
    with that(2,3) show ?thesis
      by (simp add: right_in_pairs_iff[OF pairs])
  qed
  have left': "\<forall>pre f2 post f1.
           glob tree d1 ''*_undistorted.jpg'' = pre @ f2 # post
         \<and> f1 \<in> set pre \<and> f1 \<noteq> f2 \<and> file_key f1 = file_key f2
         \<and> file_key f2 \<notin> file_key ` set post
         \<longrightarrow> map_of (stream_images tree d1) (file_key f2) = Some f2
           \<and> f1 \<notin> fst ` set pairs
           \<and> (f2 \<in> fst ` set pairs \<longleftrightarrow> file_key f2 \<in> stream_keys tree d2)"
    using left by (intro allI impI) (elim conjE)
  have right': "\<forall>pre f2 post f1.
           glob tree d2 ''*_undistorted.jpg'' = pre @ f2 # post
         \<and> f1 \<in> set pre \<and> f1 \<noteq> f2 \<and> file_key f1 = file_key f2
         \<and> file_key f2 \<notin> file_key ` set post
         \<longrightarrow> map_of (stream_images tree d2) (file_key f2) = Some f2
           \<and> f1 \<notin> snd ` set pairs
           \<and> (f2 \<in> snd ` set pairs \<longleftrightarrow> file_key f2 \<in> stream_keys tree d1)"
    using right by (intro allI impI) (elim conjE)
  show ?thesis
    by (rule exI[of _ pairs]) (intro conjI pairs left' right')
qed

theorem duplicate_key_last_listed_wins_witness:
  "\<exists>pairs.
     find_stereo_pairs
       (two_streams [''a_x_undistorted.jpg'', ''a_y_undistorted.jpg'']
          [''a_p_undistorted.jpg'', ''a_q_undistorted.jpg''])
       [''data'', ''stream_1201-1''] [''data'', ''stream_1201-2''] = Inr pairs
   \<and> [''data'', ''stream_1201-1'', ''a_x_undistorted.jpg''] \<notin> fst ` set pairs
   \<and> [''data'', ''stream_1201-1'', ''a_y_undistorted.jpg''] \<in> fst ` set pairs
   \<and> [''data'', ''stream_1201-2'', ''a_p_undistorted.jpg''] \<notin> snd ` set pairs
   \<and> [''data'', ''stream_1201-2'', ''a_q_undistorted.jpg''] \<in> snd ` set pairs"
proof -
  let ?t = "two_streams [''a_x_undistorted.jpg'', ''a_y_undistorted.jpg'']
          [''a_p_undistorted.jpg'', ''a_q_undistorted.jpg'']"
  let ?d1 = "[''data'', ''stream_1201-1'']"
  let ?d2 = "[''data'', ''stream_1201-2'']"
  let ?x = "[''data'', ''stream_1201-1'', ''a_x_undistorted.jpg'']"
  let ?y = "[''data'', ''stream_1201-1'', ''a_y_undistorted.jpg'']"
  let ?p = "[''data'', ''stream_1201-2'', ''a_p_undistorted.jpg'']"
  let ?q = "[''data'', ''stream_1201-2'', ''a_q_undistorted.jpg'']"
  have g1: "glob ?t ?d1 ''*_undistorted.jpg'' = [?x] @ ?y # []"
    by (simp add: glob_two_streams1 path_div_def)
  have g2: "glob ?t ?d2 ''*_undistorted.jpg'' = [?p] @ ?q # []"
    by (simp add: glob_two_streams2 path_div_def)
  have k: "file_key ?x = ''a''" "file_key ?y = ''a''" "file_key ?p = ''a''" "file_key ?q = ''a''"
    by (simp_all add: file_key_def path_name_def get_timestamp_from_filename_def)
  have k1: "file_key ?y \<in> stream_keys ?t ?d1"
    by (simp add: k stream_keys_two_streams1 get_timestamp_from_filename_def)
  have k2: "file_key ?q \<in> stream_keys ?t ?d2"
    by (simp add: k stream_keys_two_streams2 get_timestamp_from_filename_def)
  have h1: "glob ?t ?d1 ''*_undistorted.jpg'' = [?x] @ ?y # []
         \<and> ?x \<in> set [?x] \<and> ?x \<noteq> ?y \<and> file_key ?x = file_key ?y
         \<and> file_key ?y \<notin> file_key ` set []"
    using g1 by (simp add: k)
  have h2: "glob ?t ?d2 ''*_undistorted.jpg'' = [?p] @ ?q # []
         \<and> ?p \<in> set [?p] \<and> ?p \<noteq> ?q \<and> file_key ?p = file_key ?q
         \<and> file_key ?q \<notin> file_key ` set []"
    using g2 by (simp add: k)
  from duplicate_key_last_listed_wins [of ?t ?d1 ?d2]
  obtain pairs where p: "find_stereo_pairs ?t ?d1 ?d2 = Inr pairs"
    and L: "\<forall>pre f2 post f1.
           glob ?t ?d1 ''*_undistorted.jpg'' = pre @ f2 # post
         \<and> f1 \<in> set pre \<and> f1 \<noteq> f2 \<and> file_key f1 = file_key f2
         \<and> file_key f2 \<notin> file_key ` set post
         \<longrightarrow> map_of (stream_images ?t ?d1) (file_key f2) = Some f2
           \<and> f1 \<notin> fst ` set pairs
           \<and> (f2 \<in> fst ` set pairs \<longleftrightarrow> file_key f2 \<in> stream_keys ?t ?d2)"
    and R: "\<forall>pre f2 post f1.
           glob ?t ?d2 ''*_undistorted.jpg'' = pre @ f2 # post
         \<and> f1 \<in> set pre \<and> f1 \<noteq> f2 \<and> file_key f1 = file_key f2
         \<and> file_key f2 \<notin> file_key ` set post
         \<longrightarrow> map_of (stream_images ?t ?d2) (file_key f2) = Some f2
           \<and> f1 \<notin> snd ` set pairs
           \<and> (f2 \<in> snd ` set pairs \<longleftrightarrow> file_key f2 \<in> stream_keys ?t ?d1)"
    by (elim exE conjE)
  note cl = L [THEN spec, THEN spec, THEN spec, THEN spec, THEN mp, OF h1]
  note cr = R [THEN spec, THEN spec, THEN spec, THEN spec, THEN mp, OF h2]
  have l: "?x \<notin> fst ` set pairs" "?y \<in> fst ` set pairs \<longleftrightarrow> file_key ?y \<in> stream_keys ?t ?d2"
    by (rule cl [THEN conjunct2, THEN conjunct1]) (rule cl [THEN conjunct2, THEN conjunct2])
  have r: "?p \<notin> snd ` set pairs" "?q \<in> snd ` set pairs \<longleftrightarrow> file_key ?q \<in> stream_keys ?t ?d1"
    by (rule cr [THEN conjunct2, THEN conjunct1]) (rule cr [THEN conjunct2, THEN conjunct2])
  have ky: "file_key ?y \<in> stream_keys ?t ?d2" using k2 by (simp only: k)
  have kq: "file_key ?q \<in> stream_keys ?t ?d1" using k1 by (simp only: k)
  from l(2) ky have ly: "?y \<in> fst ` set pairs" by (rule iffD2)
  from r(2) kq have rq: "?q \<in> snd ` set pairs" by (rule iffD2)
  show ?thesis
    by (rule exI[of _ pairs]) (intro conjI p l(1) ly r(1) rq)
qed

text \<open>
  The claim as first stated, with one of the two files in the returned pairs whenever two
  files share a key, fails when the key does not occur in the other directory: then neither
  file is in a pair.
\<close>

theorem duplicate_key_unpaired_neither_appears:
  "glob (two_streams [''a_x_undistorted.jpg'', ''a_y_undistorted.jpg''] [''b_undistorted.jpg''])
     [''data'', ''stream_1201-1''] ''*_undistorted.jpg''
     = [''data'', ''stream_1201-1'', ''a_x_undistorted.jpg'']
       # [''data'', ''stream_1201-1'', ''a_y_undistorted.jpg''] # []
   \<and> file_key [''data'', ''stream_1201-1'', ''a_x_undistorted.jpg''] = ''a''
   \<and> file_key [''data'', ''stream_1201-1'', ''a_y_undistorted.jpg''] = ''a''
   \<and> find_stereo_pairs
        (two_streams [''a_x_undistorted.jpg'', ''a_y_undistorted.jpg''] [''b_undistorted.jpg''])
        [''data'', ''stream_1201-1''] [''data'', ''stream_1201-2'']
     = Inr []"
  by (simp add: glob_two_streams1 path_div_def file_key_def path_name_def
        get_timestamp_from_filename_def find_two_streams Let_def dict_of_def dict_set_def
        keys_def dict_get_def)

end
